theory Spec2Isabelle
  imports Complex_Main "HOL-Library.Word" "HOL-Library.Sublist"
begin

section \<open>JavaScript values as the contact proxy sees them\<close>

text \<open>
  The repository holds the server twice: \<^verbatim>\<open>src/index.mjs\<close>, and
  \<^verbatim>\<open>src/unnamed/part_000\<close>, which adds \<^verbatim>\<open>toBoolean\<close>, a \<^verbatim>\<open>keyGenerator\<close> and CORS to
  the same code. Both are modelled; where they differ the definition of index.mjs
  carries the suffix \<open>_index\<close>.

  The handler receives \<^verbatim>\<open>req.body\<close> from \<^verbatim>\<open>express.json()\<close>: an object whose
  properties hold arbitrary JSON values. A JavaScript string is a sequence of UTF-16
  code units, and \<^verbatim>\<open>.length\<close> counts code units.
\<close>

type_synonym code_unit = "16 word"
type_synonym jsstring = "code_unit list"

text \<open>A string literal of the program text, as a JavaScript string.\<close>

definition js :: "string \<Rightarrow> jsstring" where
  "js s = map of_char s"

text \<open>
  A JavaScript number is a double: a finite value, an infinity or NaN. The proxy only
  tests numbers for truthiness and compares them with 5000.
\<close>

datatype jsnumber = Finite real | PosInfinity | NegInfinity | NaN

datatype jsvalue =
    JUndefined
  | JNull
  | JBool bool
  | JNumber jsnumber
  | JString jsstring
  | JArray "jsvalue list"
  | JObject "(jsstring \<times> jsvalue) list"

datatype js_error = TypeError | SignError

text \<open>\<^verbatim>\<open>req.body\<close>: reading a property that the client did not send gives \<^verbatim>\<open>undefined\<close>.\<close>

type_synonym body = "string \<Rightarrow> jsvalue"

definition empty_body :: body where
  "empty_body = (\<lambda>k. JUndefined)"

fun typeof :: "jsvalue \<Rightarrow> string" where
  "typeof JUndefined = ''undefined''"
| "typeof JNull = ''object''"
| "typeof (JBool b) = ''boolean''"
| "typeof (JNumber n) = ''number''"
| "typeof (JString s) = ''string''"
| "typeof (JArray xs) = ''object''"
| "typeof (JObject ps) = ''object''"

text \<open>ToBoolean: what \<^verbatim>\<open>!v\<close>, \<^verbatim>\<open>v && e\<close>, \<^verbatim>\<open>v || e\<close> and \<^verbatim>\<open>v ? a : b\<close> test.\<close>

fun truthy :: "jsvalue \<Rightarrow> bool" where
  "truthy JUndefined = False"
| "truthy JNull = False"
| "truthy (JBool b) = b"
| "truthy (JNumber (Finite r)) = (r \<noteq> 0)"
| "truthy (JNumber NaN) = False"
| "truthy (JNumber PosInfinity) = True"
| "truthy (JNumber NegInfinity) = True"
| "truthy (JString s) = (s \<noteq> [])"
| "truthy (JArray xs) = True"
| "truthy (JObject ps) = True"

text \<open>
  \<^verbatim>\<open>String.prototype.trim\<close> strips WhiteSpace and LineTerminator code points from both
  ends: TAB, LF, VT, FF, CR, SPACE, NBSP, U+1680, U+2000..U+200A, U+2028, U+2029,
  U+202F, U+205F, U+3000 and U+FEFF.
\<close>

definition is_white_space :: "code_unit \<Rightarrow> bool" where
  "is_white_space c =
     (c \<in> set [0x9, 0xA, 0xB, 0xC, 0xD, 0x20, 0xA0, 0x1680, 0x2028, 0x2029, 0x202F, 0x205F,
               0x3000, 0xFEFF]
      \<or> (0x2000 \<le> c \<and> c \<le> 0x200A))"

definition trim :: "jsstring \<Rightarrow> jsstring" where
  "trim s = rev (dropWhile is_white_space (rev (dropWhile is_white_space s)))"

text \<open>
  \<^verbatim>\<open>v.trim()\<close> on a value of any type. Only strings have a \<^verbatim>\<open>trim\<close> method: on a
  boolean, a number or an array the property is \<^verbatim>\<open>undefined\<close>, on a parsed JSON object
  it is at best another JSON value, and calling either throws a TypeError (as does
  reading a property of \<^verbatim>\<open>undefined\<close> or \<^verbatim>\<open>null\<close>).
\<close>

fun call_trim :: "jsvalue \<Rightarrow> js_error + jsstring" where
  "call_trim (JString s) = Inr (trim s)"
| "call_trim v = Inl TypeError"

text \<open>
  \<^verbatim>\<open>String.prototype.toLowerCase\<close>, on the ASCII letters. The Unicode case mappings of
  the other code units are left out. The proxy compares a lowered string with
  \<^verbatim>\<open>'true'\<close> only, and no code unit outside ASCII is lowered to one of those four
  letters (the only ASCII letters that come from outside ASCII are \<^verbatim>\<open>k\<close>, from U+212A,
  and the \<^verbatim>\<open>i\<close> of U+0130), so the comparison is decided as JavaScript decides it.
\<close>

definition lower_unit :: "code_unit \<Rightarrow> code_unit" where
  "lower_unit c = (if 0x41 \<le> c \<and> c \<le> 0x5A then c + 0x20 else c)"

definition toLowerCase :: "jsstring \<Rightarrow> jsstring" where
  "toLowerCase s = map lower_unit s"

text \<open>
  \<^verbatim>\<open>v.length\<close> for a truthy \<^verbatim>\<open>v\<close>: the number of code units of a string, the number of
  elements of an array, the property named \<^verbatim>\<open>length\<close> of a parsed object (the list
  holds the object's own properties), \<^verbatim>\<open>undefined\<close> on a boolean or a number. Reading
  it from \<^verbatim>\<open>undefined\<close> or \<^verbatim>\<open>null\<close> would throw; the proxy reads it behind the guard
  \<^verbatim>\<open>body.message &&\<close> only, which both fail.
\<close>

fun get_length :: "jsvalue \<Rightarrow> jsvalue" where
  "get_length (JString s) = JNumber (Finite (real (length s)))"
| "get_length (JArray xs) = JNumber (Finite (real (length xs)))"
| "get_length (JObject ps) = (case map_of ps (js ''length'') of Some v \<Rightarrow> v | None \<Rightarrow> JUndefined)"
| "get_length v = JUndefined"

text \<open>\<^verbatim>\<open>Array.prototype.join\<close> on an array of strings (lists of any unit).\<close>

fun join :: "'a list \<Rightarrow> 'a list list \<Rightarrow> 'a list" where
  "join sep [] = []"
| "join sep [x] = x"
| "join sep (x # y # ys) = x @ sep @ join sep (y # ys)"

text \<open>
  The two conversions between numbers and their text, which never throw: parsing a
  string as a numeric literal (StringToNumber) and printing a number
  (\<^verbatim>\<open>Number.prototype.toString\<close>). They work on doubles and are parameters of the model;
  every statement below holds for any pair of such functions.
\<close>

record conv =
  StringToNumber :: "jsstring \<Rightarrow> jsnumber"
  NumberToString :: "jsnumber \<Rightarrow> jsstring"

text \<open>The first error of a list of results, or all the values.\<close>

fun sequence_e :: "(js_error + 'a) list \<Rightarrow> js_error + 'a list" where
  "sequence_e [] = Inr []"
| "sequence_e (Inl e # rs) = Inl e"
| "sequence_e (Inr x # rs) = (case sequence_e rs of Inl e \<Rightarrow> Inl e | Inr xs \<Rightarrow> Inr (x # xs))"

text \<open>
  ToString of a parsed JSON value, which goes through ToPrimitive for arrays and
  objects. An array is printed by \<^verbatim>\<open>Array.prototype.join\<close>: its elements separated by
  commas, \<^verbatim>\<open>undefined\<close> and \<^verbatim>\<open>null\<close> as the empty string. A parsed object has no callable
  property of its own, so an own property named \<^verbatim>\<open>toString\<close> hides
  \<^verbatim>\<open>Object.prototype.toString\<close>, the inherited \<^verbatim>\<open>valueOf\<close> returns the object itself,
  and the conversion throws a TypeError; without such a property the text is
  \<^verbatim>\<open>[object Object]\<close>. The order in which ToPrimitive tries the two methods does not
  change the outcome.
\<close>

fun to_string :: "conv \<Rightarrow> jsvalue \<Rightarrow> js_error + jsstring" where
  "to_string c JUndefined = Inr (js ''undefined'')"
| "to_string c JNull = Inr (js ''null'')"
| "to_string c (JBool b) = Inr (js (if b then ''true'' else ''false''))"
| "to_string c (JNumber n) = Inr (NumberToString c n)"
| "to_string c (JString s) = Inr s"
| "to_string c (JArray xs) =
     (case sequence_e
             (map (\<lambda>x. if x = JUndefined \<or> x = JNull then Inr [] else to_string c x) xs) of
        Inl e \<Rightarrow> Inl e
      | Inr ss \<Rightarrow> Inr (join (js '','') ss))"
| "to_string c (JObject ps) =
     (if js ''toString'' \<in> fst ` set ps then Inl TypeError else Inr (js ''[object Object]''))"

text \<open>
  ToNumber of the left operand of \<^verbatim>\<open>x > 5000\<close>: the operator takes the primitive value
  of an array or an object first, which is its text, and then reads a string as a
  number.
\<close>

fun to_number :: "conv \<Rightarrow> jsvalue \<Rightarrow> js_error + jsnumber" where
  "to_number c JUndefined = Inr NaN"
| "to_number c JNull = Inr (Finite 0)"
| "to_number c (JBool b) = Inr (Finite (if b then 1 else 0))"
| "to_number c (JNumber n) = Inr n"
| "to_number c (JString s) = Inr (StringToNumber c s)"
| "to_number c v =
     (case to_string c v of Inl e \<Rightarrow> Inl e | Inr s \<Rightarrow> Inr (StringToNumber c s))"

fun greater_than :: "jsnumber \<Rightarrow> real \<Rightarrow> bool" where
  "greater_than (Finite r) n = (n < r)"
| "greater_than PosInfinity n = True"
| "greater_than NegInfinity n = False"
| "greater_than NaN n = False"


section \<open>The submission validator\<close>

text \<open>
  \<^verbatim>\<open>toBoolean\<close> (part_000, lines 46-54).
\<close>

fun toBoolean :: "jsvalue \<Rightarrow> bool" where
  "toBoolean (JBool b) = b"
| "toBoolean (JString s) = (toLowerCase s = js ''true'')"
| "toBoolean v = False"

text \<open>
  What \<^verbatim>\<open>validateContactBody\<close> returns: \<^verbatim>\<open>errors\<close> is the array itself on the spam
  path, and the joined string or \<^verbatim>\<open>null\<close> on the final return.
\<close>

datatype errors_value = ErrArray "string list" | ErrString string | ErrNull

record validation =
  valid :: bool
  errors :: errors_value

text \<open>
  \<^verbatim>\<open>body.honeypot && body.honeypot.trim() !== ''\<close>: the call of \<^verbatim>\<open>trim\<close> is not
  guarded by a \<^verbatim>\<open>typeof\<close> test, so a truthy value that is not a string throws.
\<close>

definition honeypot_filled :: "jsvalue \<Rightarrow> js_error + bool" where
  "honeypot_filled h =
     (if truthy h
      then (case call_trim h of Inl e \<Rightarrow> Inl e | Inr t \<Rightarrow> Inr (t \<noteq> []))
      else Inr False)"

text \<open>
  \<^verbatim>\<open>!v || typeof v !== 'string' || v.trim() === ''\<close>: the call of \<^verbatim>\<open>trim\<close> is reached
  for strings only.
\<close>

definition required_missing :: "jsvalue \<Rightarrow> bool" where
  "required_missing v =
     (if \<not> truthy v then True
      else if typeof v \<noteq> ''string'' then True
      else call_trim v = Inr [])"

text \<open>
  \<^verbatim>\<open>body.message && body.message.length > 5000\<close>: no \<^verbatim>\<open>typeof\<close> test guards the
  comparison, so it throws when the conversion of \<^verbatim>\<open>length\<close> to a number does.
\<close>

definition message_too_long :: "conv \<Rightarrow> jsvalue \<Rightarrow> js_error + bool" where
  "message_too_long c m =
     (if truthy m
      then (case to_number c (get_length m) of
              Inl e \<Rightarrow> Inl e
            | Inr n \<Rightarrow> Inr (greater_than n 5000))
      else Inr False)"

text \<open>\<^verbatim>\<open>if (c) { errors.push(r); }\<close>\<close>

definition push_if :: "bool \<Rightarrow> string \<Rightarrow> string list \<Rightarrow> string list" where
  "push_if c r errs = (if c then errs @ [r] else errs)"

text \<open>
  The \<^verbatim>\<open>errors\<close> array when control reaches the final \<^verbatim>\<open>return\<close>, that is after the
  honeypot check has let the body pass; the length check, the last one, may throw
  instead. The two files differ in the consent test only, which is the parameter
  \<open>consent\<close>.
\<close>

definition field_errors ::
  "(jsvalue \<Rightarrow> bool) \<Rightarrow> conv \<Rightarrow> body \<Rightarrow> js_error + string list" where
  "field_errors consent c b =
     (let errs = [];
          errs = push_if (required_missing (b ''name'')) ''Name is required'' errs;
          errs = push_if (required_missing (b ''email'')) ''Email is required'' errs;
          errs = push_if (required_missing (b ''subject'')) ''Subject is required'' errs;
          errs = push_if (required_missing (b ''message'')) ''Message is required'' errs;
          errs = push_if (\<not> consent (b ''privacyConsent'')) ''Privacy consent is required'' errs
      in case message_too_long c (b ''message'') of
           Inl e \<Rightarrow> Inl e
         | Inr long \<Rightarrow> Inr (push_if long ''Message must be 5000 characters or less'' errs))"

text \<open>
  The final \<^verbatim>\<open>return\<close>:
  \<^verbatim>\<open>{ valid: errors.length === 0, errors: errors.length > 0 ? errors.join(', ') : null }\<close>
\<close>

definition final_result :: "string list \<Rightarrow> validation" where
  "final_result errs =
     \<lparr>valid = (length errs = 0),
      errors = (if length errs > 0 then ErrString (join '', '' errs) else ErrNull)\<rparr>"

text \<open>
  The whole function: the honeypot check throws, returns the array with the single
  spam reason, or lets the field checks run, the last of which may throw.
\<close>

definition validate_with ::
  "(jsvalue \<Rightarrow> bool) \<Rightarrow> conv \<Rightarrow> body \<Rightarrow> js_error + validation" where
  "validate_with consent c b =
     (case honeypot_filled (b ''honeypot'') of
        Inl e \<Rightarrow> Inl e
      | Inr True \<Rightarrow> Inr \<lparr>valid = False, errors = ErrArray [''Spam detected'']\<rparr>
      | Inr False \<Rightarrow>
          (case field_errors consent c b of
             Inl e \<Rightarrow> Inl e
           | Inr errs \<Rightarrow> Inr (final_result errs)))"

text \<open>
  \<^verbatim>\<open>validateContactBody\<close> of part_000 (lines 57-97) tests
  \<^verbatim>\<open>toBoolean(body.privacyConsent) !== true\<close>.
\<close>

definition validateContactBody :: "conv \<Rightarrow> body \<Rightarrow> js_error + validation" where
  "validateContactBody c b = validate_with (\<lambda>v. toBoolean v = True) c b"

text \<open>
  \<^verbatim>\<open>validateContactBody\<close> of index.mjs (lines 35-75) tests
  \<^verbatim>\<open>body.privacyConsent !== true\<close>, a strict comparison without coercion.
\<close>

definition validateContactBody_index :: "conv \<Rightarrow> body \<Rightarrow> js_error + validation" where
  "validateContactBody_index c b = validate_with (\<lambda>v. v = JBool True) c b"

text \<open>
  What a caller can read off the returned value: the reason \<open>r\<close> is an element of the
  returned array, or occurs in the returned joined string.
\<close>

definition reports :: "string \<Rightarrow> js_error + validation \<Rightarrow> bool" where
  "reports r res =
     (case res of
        Inl e \<Rightarrow> False
      | Inr v \<Rightarrow>
          (case errors v of
             ErrArray rs \<Rightarrow> r \<in> set rs
           | ErrString s \<Rightarrow> sublist r s
           | ErrNull \<Rightarrow> False))"

text \<open>The reasons whose test fired, in the order of the tests.\<close>

definition pick :: "(bool \<times> string) list \<Rightarrow> string list" where
  "pick cs = map snd (filter fst cs)"

text \<open>The content of the \<^verbatim>\<open>errors\<close> array, given which of the six tests fired.\<close>

definition reasons_of :: "bool \<Rightarrow> bool \<Rightarrow> bool \<Rightarrow> bool \<Rightarrow> bool \<Rightarrow> bool \<Rightarrow> string list" where
  "reasons_of a b c d e f =
     pick [(a, ''Name is required''), (b, ''Email is required''), (c, ''Subject is required''),
           (d, ''Message is required''), (e, ''Privacy consent is required''),
           (f, ''Message must be 5000 characters or less'')]"

text \<open>
  The specification's words for the accepted consent strings: the four letters of \<^verbatim>\<open>true\<close>, each
  in either case.
\<close>

definition is_true_ignoring_case :: "jsstring \<Rightarrow> bool" where
  "is_true_ignoring_case s =
     (case s of
        [a, b, c, d] \<Rightarrow>
          (a = 0x74 \<or> a = 0x54) \<and> (b = 0x72 \<or> b = 0x52) \<and>
          (c = 0x75 \<or> c = 0x55) \<and> (d = 0x65 \<or> d = 0x45)
      | _ \<Rightarrow> False)"

section \<open>The request, the payload and the handler of POST /contact\<close>

record request =
  req_body :: body
  req_headers :: "string \<Rightarrow> jsstring option"
  remoteAddress :: "jsstring option"
  req_ip :: "jsstring option"

definition header :: "request \<Rightarrow> string \<Rightarrow> jsvalue" where
  "header req h = (case req_headers req h of Some s \<Rightarrow> JString s | None \<Rightarrow> JUndefined)"

text \<open>\<^verbatim>\<open>a || b\<close>\<close>

definition js_or :: "jsvalue \<Rightarrow> jsvalue \<Rightarrow> jsvalue" where
  "js_or a b = (if truthy a then a else b)"

text \<open>\<^verbatim>\<open>s.split(',')[0]\<close>: the text before the first comma.\<close>

definition split_first :: "jsstring \<Rightarrow> jsstring" where
  "split_first s = takeWhile (\<lambda>c. c \<noteq> 0x2C) s"

text \<open>\<^verbatim>\<open>req.socket.remoteAddress || 'unknown'\<close>\<close>

definition remote_or_unknown :: "request \<Rightarrow> jsstring" where
  "remote_or_unknown req =
     (case remoteAddress req of
        Some a \<Rightarrow> if a \<noteq> [] then a else js ''unknown''
      | None \<Rightarrow> js ''unknown'')"

definition getClientIp :: "request \<Rightarrow> jsstring" where
  "getClientIp req =
     (case req_headers req ''x-forwarded-for'' of
        Some forwarded \<Rightarrow>
          if forwarded \<noteq> [] then trim (split_first forwarded) else remote_or_unknown req
      | None \<Rightarrow> remote_or_unknown req)"

type_synonym jsobject = "(string \<times> jsvalue) list"

definition bind_e :: "js_error + 'a \<Rightarrow> ('a \<Rightarrow> js_error + 'b) \<Rightarrow> js_error + 'b" where
  "bind_e m f = (case m of Inl e \<Rightarrow> Inl e | Inr x \<Rightarrow> f x)"

text \<open>\<^verbatim>\<open>v.trim()\<close> as a value of the payload.\<close>

definition trimmed :: "jsvalue \<Rightarrow> js_error + jsvalue" where
  "trimmed v = (case call_trim v of Inl e \<Rightarrow> Inl e | Inr t \<Rightarrow> Inr (JString t))"

text \<open>\<^verbatim>\<open>v ? v.trim() : null\<close>\<close>

definition trim_or_null :: "jsvalue \<Rightarrow> js_error + jsvalue" where
  "trim_or_null v = (if truthy v then trimmed v else Inr JNull)"

text \<open>
  The object literal \<^verbatim>\<open>payload\<close> of part_000 (lines 139-158), its properties in
  order. \<open>now\<close> is \<^verbatim>\<open>new Date().toISOString()\<close>.
\<close>

definition build_payload :: "jsstring \<Rightarrow> request \<Rightarrow> js_error + jsobject" where
  "build_payload now req =
     (let b = req_body req;
          userAgent = js_or (js_or (b ''userAgent'') (header req ''user-agent'')) JNull
      in bind_e (trimmed (b ''name'')) (\<lambda>name.
         bind_e (trimmed (b ''email'')) (\<lambda>email.
         bind_e (trimmed (b ''subject'')) (\<lambda>subject.
         bind_e (trimmed (b ''message'')) (\<lambda>message.
         bind_e (trim_or_null (b ''company'')) (\<lambda>company.
         bind_e (trim_or_null (b ''phone'')) (\<lambda>phone.
         Inr [(''name'', name), (''email'', email), (''subject'', subject),
              (''message'', message), (''company'', company), (''phone'', phone),
              (''whatsappConsent'', JBool (toBoolean (b ''whatsappConsent''))),
              (''privacyConsent'', JBool (toBoolean (b ''privacyConsent''))),
              (''ip'', JString (getClientIp req)),
              (''userAgent'', userAgent),
              (''language'', js_or (b ''language'') JNull),
              (''timestamp'', js_or (b ''timestamp'') JNull),
              (''createdAt'', JString now)])))))))"

text \<open>The object literal \<^verbatim>\<open>payload\<close> of index.mjs (lines 103-119).\<close>

definition build_payload_index :: "jsstring \<Rightarrow> request \<Rightarrow> js_error + jsobject" where
  "build_payload_index now req =
     (let b = req_body req;
          userAgent = js_or (js_or (b ''userAgent'') (header req ''user-agent'')) JNull
      in bind_e (trimmed (b ''name'')) (\<lambda>name.
         bind_e (trimmed (b ''email'')) (\<lambda>email.
         bind_e (trimmed (b ''subject'')) (\<lambda>subject.
         bind_e (trimmed (b ''message'')) (\<lambda>message.
         bind_e (trim_or_null (b ''company'')) (\<lambda>company.
         bind_e (trim_or_null (b ''phone'')) (\<lambda>phone.
         Inr [(''name'', name), (''email'', email), (''subject'', subject),
              (''message'', message), (''company'', company), (''phone'', phone),
              (''ip'', JString (getClientIp req)),
              (''userAgent'', userAgent),
              (''language'', js_or (b ''language'') JNull),
              (''createdAt'', JString now)])))))))"

text \<open>
  \<^verbatim>\<open>JSON.stringify(payload)\<close>, as the members of the serialized object: a property is
  written with its value, \<^verbatim>\<open>null\<close> included, unless the value is \<^verbatim>\<open>undefined\<close>.
\<close>

definition json_members :: "jsobject \<Rightarrow> jsobject" where
  "json_members p = filter (\<lambda>kv. snd kv \<noteq> JUndefined) p"

text \<open>
  The outcome of \<^verbatim>\<open>await fetch(...)\<close>: a response with its status and the result of
  reading its text (\<open>None\<close> when \<^verbatim>\<open>response.text()\<close> rejects), or a rejection with the
  error's message.
\<close>

datatype fetch_result = Resolved nat "jsstring option" | Rejected jsstring

record outbound =
  out_url :: jsstring
  out_method :: string
  out_content_type :: string
  out_authorization :: jsstring
  out_body :: jsobject

text \<open>
  What the handler takes from outside: the configured webhook URL, the clock, the
  result of signing the token with jose, the downstream behind \<^verbatim>\<open>fetch\<close>, and the
  two number conversions.
\<close>

record env =
  N8N_WEBHOOK_URL :: jsstring
  now_iso :: jsstring
  sign_jwt :: "js_error + jsstring"
  fetch :: "outbound \<Rightarrow> fetch_result"
  conversions :: conv

datatype json_body = OkTrue | OkFalse errors_value

record response =
  status :: nat
  json :: json_body

datatype console_line =
    LogStatus nat
  | LogUrl jsstring
  | LogErrorResponse jsstring
  | LogForwardError jsstring
  | LogUnexpected js_error

definition webhook_request :: "env \<Rightarrow> jsstring \<Rightarrow> jsobject \<Rightarrow> outbound" where
  "webhook_request e jwt payload =
     \<lparr>out_url = N8N_WEBHOOK_URL e, out_method = ''POST'',
      out_content_type = ''application/json'',
      out_authorization = js ''Bearer '' @ jwt,
      out_body = json_members payload\<rparr>"

text \<open>\<^verbatim>\<open>response.ok\<close>: the status is in the range 200-299.\<close>

definition response_ok :: "nat \<Rightarrow> bool" where
  "response_ok st = (200 \<le> st \<and> st \<le> 299)"

definition server_error :: response where
  "server_error = \<lparr>status = 500, json = OkFalse (ErrString ''Server error'')\<rparr>"

definition n8n_error :: response where
  "n8n_error = \<lparr>status = 500, json = OkFalse (ErrString ''n8n error'')\<rparr>"

text \<open>
  The handler of \<^verbatim>\<open>app.post('/contact', ...)\<close> in part_000 (lines 129-195): the
  response it sends and the lines it writes with \<^verbatim>\<open>console.error\<close>. An exception
  inside the outer \<^verbatim>\<open>try\<close> ends in the generic 500 response.
\<close>

definition contact_handler :: "env \<Rightarrow> request \<Rightarrow> response \<times> console_line list" where
  "contact_handler e req =
     (case validateContactBody (conversions e) (req_body req) of
        Inl err \<Rightarrow> (server_error, [LogUnexpected err])
      | Inr validation \<Rightarrow>
          if \<not> valid validation
          then (\<lparr>status = 400, json = OkFalse (errors validation)\<rparr>, [])
          else
            (case build_payload (now_iso e) req of
               Inl err \<Rightarrow> (server_error, [LogUnexpected err])
             | Inr payload \<Rightarrow>
                 (case sign_jwt e of
                    Inl err \<Rightarrow> (server_error, [LogUnexpected err])
                  | Inr jwt \<Rightarrow>
                      (case fetch e (webhook_request e jwt payload) of
                         Rejected msg \<Rightarrow> (n8n_error, [LogForwardError msg])
                       | Resolved st text \<Rightarrow>
                           if \<not> response_ok st
                           then (n8n_error,
                                 [LogStatus st, LogUrl (N8N_WEBHOOK_URL e),
                                  LogErrorResponse
                                    (case text of
                                       Some t \<Rightarrow> t
                                     | None \<Rightarrow> js ''Unable to read error response'')])
                           else (\<lparr>status = 200, json = OkTrue\<rparr>, [])))))"

text \<open>The handler in index.mjs (lines 93-153).\<close>

definition contact_handler_index :: "env \<Rightarrow> request \<Rightarrow> response \<times> console_line list" where
  "contact_handler_index e req =
     (case validateContactBody_index (conversions e) (req_body req) of
        Inl err \<Rightarrow> (server_error, [LogUnexpected err])
      | Inr validation \<Rightarrow>
          if \<not> valid validation
          then (\<lparr>status = 400, json = OkFalse (errors validation)\<rparr>, [])
          else
            (case build_payload_index (now_iso e) req of
               Inl err \<Rightarrow> (server_error, [LogUnexpected err])
             | Inr payload \<Rightarrow>
                 (case sign_jwt e of
                    Inl err \<Rightarrow> (server_error, [LogUnexpected err])
                  | Inr jwt \<Rightarrow>
                      (case fetch e (webhook_request e jwt payload) of
                         Rejected msg \<Rightarrow> (n8n_error, [LogForwardError msg])
                       | Resolved st text \<Rightarrow>
                           if \<not> response_ok st
                           then (n8n_error, [LogStatus st])
                           else (\<lparr>status = 200, json = OkTrue\<rparr>, [])))))"

text \<open>
  The specification's words "the forward attempt fails": the transport fails, or the
  downstream answers with a status outside 200-299.
\<close>

definition forward_failed :: "fetch_result \<Rightarrow> bool" where
  "forward_failed r =
     (case r of Rejected msg \<Rightarrow> True | Resolved st text \<Rightarrow> \<not> response_ok st)"

section \<open>Admission control in front of the handler\<close>

text \<open>
  The options given to \<^verbatim>\<open>rateLimit({...})\<close> (part_000 lines 100-107, index.mjs
  lines 78-86): the window, the maximum, and the response of the \<^verbatim>\<open>handler\<close> option.
\<close>

definition windowMs :: nat where
  "windowMs = 60 * 1000"

definition max_hits :: nat where
  "max_hits = 3"

definition too_many_requests :: response where
  "too_many_requests =
     \<lparr>status = 429, json = OkFalse (ErrString ''Too many requests, please try again later'')\<rparr>"

text \<open>
  Modelled from the spec: the state of the express-rate-limit middleware, a library
  whose code is not among the repository's files. Section 3 of the specification
  describes it as a per-identity counter over a window, in a process-wide table that
  starts empty, and the decision as admitted or denied with a retry hint.
\<close>

record window =
  hits :: nat
  window_start :: nat

type_synonym limiter = "jsstring \<Rightarrow> window option"

datatype decision = Admitted | Denied nat

text \<open>
  Modelled from the spec: the counting of the express-rate-limit middleware, a
  library whose code is not among the repository's files. Section 4.3 of the
  specification gives its policy: a fixed window of \<open>windowMs\<close> per identity, anchored
  at that identity's first request of the window; at most \<open>max_hits\<close> requests of a
  window are admitted, the later ones are denied with the remaining time as retry
  hint; an entry whose window has lapsed counts as absent. Times are in milliseconds.
\<close>

definition check :: "limiter \<Rightarrow> jsstring \<Rightarrow> nat \<Rightarrow> limiter \<times> decision" where
  "check tbl ident now =
     (let w = (case tbl ident of
                 Some w \<Rightarrow>
                   if now < window_start w + windowMs then w
                   else \<lparr>hits = 0, window_start = now\<rparr>
               | None \<Rightarrow> \<lparr>hits = 0, window_start = now\<rparr>);
          w' = w\<lparr>hits := hits w + 1\<rparr>
      in (tbl(ident \<mapsto> w'),
          if max_hits < hits w' then Denied (window_start w' + windowMs - now) else Admitted))"

text \<open>\<^verbatim>\<open>/^[\d.]+$/.test(s)\<close>\<close>

definition is_ip_text :: "jsstring \<Rightarrow> bool" where
  "is_ip_text s = (s \<noteq> [] \<and> list_all (\<lambda>c. (0x30 \<le> c \<and> c \<le> 0x39) \<or> c = 0x2E) s)"

text \<open>\<^verbatim>\<open>req.ip || req.socket.remoteAddress || 'unknown'\<close>\<close>

definition ip_or_remote :: "request \<Rightarrow> jsstring" where
  "ip_or_remote req =
     (case req_ip req of
        Some a \<Rightarrow> if a \<noteq> [] then a else remote_or_unknown req
      | None \<Rightarrow> remote_or_unknown req)"

text \<open>The \<^verbatim>\<open>keyGenerator\<close> option of part_000 (lines 109-121).\<close>

definition keyGenerator :: "request \<Rightarrow> jsstring" where
  "keyGenerator req =
     (case req_headers req ''x-forwarded-for'' of
        Some forwarded \<Rightarrow>
          (let firstIp = trim (split_first forwarded)
           in if forwarded \<noteq> [] \<and> firstIp \<noteq> [] \<and> is_ip_text firstIp then firstIp
              else ip_or_remote req)
      | None \<Rightarrow> ip_or_remote req)"

text \<open>
  \<^verbatim>\<open>app.post('/contact', contactRateLimiter, handler)\<close>: the middleware runs first and
  calls the handler only for an admitted request; a denied one gets the response of
  the \<^verbatim>\<open>handler\<close> option. \<open>key\<close> is the key generator and \<open>h\<close> the route's handler.
\<close>

definition route_with ::
  "(request \<Rightarrow> jsstring) \<Rightarrow> (env \<Rightarrow> request \<Rightarrow> response \<times> console_line list) \<Rightarrow>
   limiter \<Rightarrow> nat \<Rightarrow> env \<Rightarrow> request \<Rightarrow> limiter \<times> response \<times> console_line list" where
  "route_with key h tbl now e req =
     (case check tbl (key req) now of
        (tbl', Admitted) \<Rightarrow> (tbl', h e req)
      | (tbl', Denied retry) \<Rightarrow> (tbl', too_many_requests, []))"

text \<open>Requests served one after the other, each with its arrival time and its environment.\<close>

fun serve_with ::
  "(request \<Rightarrow> jsstring) \<Rightarrow> (env \<Rightarrow> request \<Rightarrow> response \<times> console_line list) \<Rightarrow>
   limiter \<Rightarrow> (nat \<times> env \<times> request) list \<Rightarrow> (response \<times> console_line list) list" where
  "serve_with key h tbl [] = []"
| "serve_with key h tbl ((now, e, req) # rest) =
     (case route_with key h tbl now e req of
        (tbl', out) \<Rightarrow> out # serve_with key h tbl' rest)"

text \<open>The route of part_000, keyed by its own \<^verbatim>\<open>keyGenerator\<close>.\<close>

definition serve ::
  "limiter \<Rightarrow> (nat \<times> env \<times> request) list \<Rightarrow> (response \<times> console_line list) list" where
  "serve tbl rs = serve_with keyGenerator contact_handler tbl rs"

text \<open>
  The route of index.mjs, which passes no \<^verbatim>\<open>keyGenerator\<close>: the library's default one
  is the parameter \<open>key\<close>.
\<close>

definition serve_index ::
  "(request \<Rightarrow> jsstring) \<Rightarrow> limiter \<Rightarrow> (nat \<times> env \<times> request) list \<Rightarrow>
   (response \<times> console_line list) list" where
  "serve_index key tbl rs = serve_with key contact_handler_index tbl rs"

text \<open>
  The specification's words for the admission policy, per limiter key \<open>k\<close>: the key
  has no window that is still open at \<open>t0\<close>, and every request of \<open>rs\<close> with that key
  arrives within the 60 seconds that start at \<open>t0\<close>; requests with other keys may
  arrive in between at any time.
\<close>

definition no_live_window :: "limiter \<Rightarrow> jsstring \<Rightarrow> nat \<Rightarrow> bool" where
  "no_live_window tbl k t0 =
     (case tbl k of None \<Rightarrow> True | Some w \<Rightarrow> window_start w + windowMs \<le> t0)"

definition key_window ::
  "(request \<Rightarrow> jsstring) \<Rightarrow> jsstring \<Rightarrow> nat \<Rightarrow> (nat \<times> env \<times> request) list \<Rightarrow> bool" where
  "key_window key k t0 rs =
     list_all (\<lambda>(now, e, req). if key req = k then t0 \<le> now \<and> now < t0 + 60000 else True) rs"

text \<open>
  The table has counted \<open>n\<close> requests of the key \<open>k\<close> in a window opened at or after
  \<open>t0\<close>; for \<open>n = 0\<close>, no window of the key is open.
\<close>

definition counted :: "limiter \<Rightarrow> jsstring \<Rightarrow> nat \<Rightarrow> nat \<Rightarrow> bool" where
  "counted tbl k t0 n =
     (if n = 0 then no_live_window tbl k t0
      else (case tbl k of None \<Rightarrow> False | Some w \<Rightarrow> hits w = n \<and> t0 \<le> window_start w))"

text \<open>The requests of a run that have the key \<open>k\<close>, and the answers they got, in order.\<close>

definition requests_of ::
  "(request \<Rightarrow> jsstring) \<Rightarrow> jsstring \<Rightarrow> (nat \<times> env \<times> request) list \<Rightarrow>
   (nat \<times> env \<times> request) list" where
  "requests_of key k rs = filter (\<lambda>(now, e, req). key req = k) rs"

definition answers_to ::
  "(request \<Rightarrow> jsstring) \<Rightarrow> jsstring \<Rightarrow> (nat \<times> env \<times> request) list \<Rightarrow> 'a list \<Rightarrow> 'a list" where
  "answers_to key k rs outs =
     map snd (filter (\<lambda>(r, out). key (snd (snd r)) = k) (zip rs outs))"

section \<open>A complete submission, for the concrete checks\<close>

definition sample_conv :: conv where
  "sample_conv = \<lparr>StringToNumber = (\<lambda>s. NaN), NumberToString = (\<lambda>n. js ''0'')\<rparr>"

definition sample_body :: body where
  "sample_body =
     empty_body(''name'' := JString (js ''Ann''), ''email'' := JString (js ''ann@example.com''),
                ''subject'' := JString (js ''Hi''), ''message'' := JString (js '' Hello ''),
                ''privacyConsent'' := JBool True)"

definition sample_request :: request where
  "sample_request =
     \<lparr>req_body = sample_body,
      req_headers = (\<lambda>h. None)(''user-agent'' := Some (js ''curl/8'')),
      remoteAddress = Some (js ''10.0.0.7''),
      req_ip = Some (js ''10.0.0.7'')\<rparr>"

text \<open>
  The same submission as it arrives through a reverse proxy at 203.0.113.9, with the
  given X-Forwarded-For header.
\<close>

definition proxied_request :: "jsstring \<Rightarrow> request" where
  "proxied_request forwarded =
     \<lparr>req_body = sample_body,
      req_headers = (\<lambda>h. None)(''x-forwarded-for'' := Some forwarded),
      remoteAddress = Some (js ''10.0.0.1''),
      req_ip = Some (js ''203.0.113.9'')\<rparr>"

text \<open>
  A body whose message is the parsed JSON \<^verbatim>\<open>{"length": {"toString": null}}\<close>; the
  honeypot and every other field are absent.
\<close>

definition unprintable_length_body :: body where
  "unprintable_length_body =
     empty_body(''message'' := JObject [(js ''length'', JObject [(js ''toString'', JNull)])])"

definition sample_env :: "(outbound \<Rightarrow> fetch_result) \<Rightarrow> env" where
  "sample_env f =
     \<lparr>N8N_WEBHOOK_URL = js ''https://n8n.example/webhook'',
      now_iso = js ''2024-11-17T10:30:00.000Z'',
      sign_jwt = Inr (js ''token''),
      fetch = f,
      conversions = sample_conv\<rparr>"

section \<open>Strings: reasons inside the joined text\<close>

lemma pick_simps:
  "pick [] = []"
  "pick ((True, r) # cs) = r # pick cs"
  "pick ((False, r) # cs) = pick cs"
  by (simp_all add: pick_def)

lemma sublist_join: "r \<in> set rs \<Longrightarrow> sublist r (join sep rs)"
proof (induction sep rs rule: join.induct)
  case (1 sep)
  then show ?case by simp
next
  case (2 sep x)
  then show ?case by simp
next
  case (3 sep x y ys)
  show ?case
  proof (cases "r = x")
    case True
    then show ?thesis by simp
  next
    case False
    with 3 have "sublist r (join sep (y # ys))" by simp
    then obtain ps ss where "join sep (y # ys) = ps @ r @ ss"
      by (auto simp: sublist_def)
    then have "join sep (x # y # ys) = (x @ sep @ ps) @ r @ ss" by simp
    then show ?thesis unfolding sublist_def by blast
  qed
qed

lemma sublist_filter: "sublist xs ys \<Longrightarrow> sublist (filter P xs) (filter P ys)"
proof -
  assume "sublist xs ys"
  then obtain ps ss where "ys = ps @ xs @ ss" by (auto simp: sublist_def)
  then have "filter P ys = filter P ps @ filter P xs @ filter P ss" by simp
  then show ?thesis unfolding sublist_def by blast
qed

lemma filter_join:
  "filter P sep = [] \<Longrightarrow> filter P (join sep rs) = concat (map (filter P) rs)"
  by (induction sep rs rule: join.induct) simp_all

lemma name_not_in_join:
  "\<not> sublist ''Name is required'' (join '', '' (reasons_of False b c d e f))"
proof
  let ?P = "\<lambda>x. x = CHR ''N''"
  have fs:
    "filter ?P ''Name is required'' = ''N''"
    "filter ?P ''Email is required'' = ''''"
    "filter ?P ''Subject is required'' = ''''"
    "filter ?P ''Message is required'' = ''''"
    "filter ?P ''Privacy consent is required'' = ''''"
    "filter ?P ''Message must be 5000 characters or less'' = ''''"
    by simp_all
  have s: "filter ?P '', '' = []" by simp
  assume "sublist ''Name is required'' (join '', '' (reasons_of False b c d e f))"
  from sublist_filter [OF this, of ?P]
  have "sublist ''N'' (concat (map (filter ?P) (reasons_of False b c d e f)))"
    by (simp only: filter_join [OF s] fs)
  then show False
    unfolding reasons_of_def
    by (cases b; cases c; cases d; cases e; cases f)
       (simp_all only: pick_simps list.map concat.simps fs, simp_all add: sublist_Cons_right)
qed

lemma name_in_join_iff:
  "sublist ''Name is required'' (join '', '' (reasons_of a b c d e f)) = a"
proof (cases a)
  case True
  then have "''Name is required'' \<in> set (reasons_of a b c d e f)"
    by (simp add: reasons_of_def pick_def)
  then show ?thesis using True by (simp add: sublist_join)
next
  case False
  then show ?thesis using name_not_in_join by simp
qed

lemma email_not_in_join:
  "\<not> sublist ''Email is required'' (join '', '' (reasons_of a False c d e f))"
proof
  let ?P = "\<lambda>x. x = CHR ''E''"
  have fs:
    "filter ?P ''Name is required'' = ''''"
    "filter ?P ''Email is required'' = ''E''"
    "filter ?P ''Subject is required'' = ''''"
    "filter ?P ''Message is required'' = ''''"
    "filter ?P ''Privacy consent is required'' = ''''"
    "filter ?P ''Message must be 5000 characters or less'' = ''''"
    by simp_all
  have s: "filter ?P '', '' = []" by simp
  assume "sublist ''Email is required'' (join '', '' (reasons_of a False c d e f))"
  from sublist_filter [OF this, of ?P]
  have "sublist ''E'' (concat (map (filter ?P) (reasons_of a False c d e f)))"
    by (simp only: filter_join [OF s] fs)
  then show False
    unfolding reasons_of_def
    by (cases a; cases c; cases d; cases e; cases f)
       (simp_all only: pick_simps list.map concat.simps fs, simp_all add: sublist_Cons_right)
qed

lemma email_in_join_iff:
  "sublist ''Email is required'' (join '', '' (reasons_of a b c d e f)) = b"
proof (cases b)
  case True
  then have "''Email is required'' \<in> set (reasons_of a b c d e f)"
    by (simp add: reasons_of_def pick_def)
  then show ?thesis using True by (simp add: sublist_join)
next
  case False
  then show ?thesis using email_not_in_join by simp
qed

lemma subject_not_in_join:
  "\<not> sublist ''Subject is required'' (join '', '' (reasons_of a b False d e f))"
proof
  let ?P = "\<lambda>x. x = CHR ''S''"
  have fs:
    "filter ?P ''Name is required'' = ''''"
    "filter ?P ''Email is required'' = ''''"
    "filter ?P ''Subject is required'' = ''S''"
    "filter ?P ''Message is required'' = ''''"
    "filter ?P ''Privacy consent is required'' = ''''"
    "filter ?P ''Message must be 5000 characters or less'' = ''''"
    by simp_all
  have s: "filter ?P '', '' = []" by simp
  assume "sublist ''Subject is required'' (join '', '' (reasons_of a b False d e f))"
  from sublist_filter [OF this, of ?P]
  have "sublist ''S'' (concat (map (filter ?P) (reasons_of a b False d e f)))"
    by (simp only: filter_join [OF s] fs)
  then show False
    unfolding reasons_of_def
    by (cases a; cases b; cases d; cases e; cases f)
       (simp_all only: pick_simps list.map concat.simps fs, simp_all add: sublist_Cons_right)
qed

lemma subject_in_join_iff:
  "sublist ''Subject is required'' (join '', '' (reasons_of a b c d e f)) = c"
proof (cases c)
  case True
  then have "''Subject is required'' \<in> set (reasons_of a b c d e f)"
    by (simp add: reasons_of_def pick_def)
  then show ?thesis using True by (simp add: sublist_join)
next
  case False
  then show ?thesis using subject_not_in_join by simp
qed

lemma message_not_in_join:
  "\<not> sublist ''Message is required'' (join '', '' (reasons_of a b c False e f))"
proof
  let ?P = "\<lambda>x. x = CHR ''M'' \<or> x = CHR ''q''"
  have fs:
    "filter ?P ''Name is required'' = ''q''"
    "filter ?P ''Email is required'' = ''q''"
    "filter ?P ''Subject is required'' = ''q''"
    "filter ?P ''Message is required'' = ''Mq''"
    "filter ?P ''Privacy consent is required'' = ''q''"
    "filter ?P ''Message must be 5000 characters or less'' = ''M''"
    by simp_all
  have s: "filter ?P '', '' = []" by simp
  assume "sublist ''Message is required'' (join '', '' (reasons_of a b c False e f))"
  from sublist_filter [OF this, of ?P]
  have "sublist ''Mq'' (concat (map (filter ?P) (reasons_of a b c False e f)))"
    by (simp only: filter_join [OF s] fs)
  then show False
    unfolding reasons_of_def
    by (cases a; cases b; cases c; cases e; cases f)
       (simp_all only: pick_simps list.map concat.simps fs, simp_all add: sublist_Cons_right)
qed

lemma message_in_join_iff:
  "sublist ''Message is required'' (join '', '' (reasons_of a b c d e f)) = d"
proof (cases d)
  case True
  then have "''Message is required'' \<in> set (reasons_of a b c d e f)"
    by (simp add: reasons_of_def pick_def)
  then show ?thesis using True by (simp add: sublist_join)
next
  case False
  then show ?thesis using message_not_in_join by simp
qed

lemma consent_not_in_join:
  "\<not> sublist ''Privacy consent is required'' (join '', '' (reasons_of a b c d False f))"
proof
  let ?P = "\<lambda>x. x = CHR ''P''"
  have fs:
    "filter ?P ''Name is required'' = ''''"
    "filter ?P ''Email is required'' = ''''"
    "filter ?P ''Subject is required'' = ''''"
    "filter ?P ''Message is required'' = ''''"
    "filter ?P ''Privacy consent is required'' = ''P''"
    "filter ?P ''Message must be 5000 characters or less'' = ''''"
    by simp_all
  have s: "filter ?P '', '' = []" by simp
  assume "sublist ''Privacy consent is required'' (join '', '' (reasons_of a b c d False f))"
  from sublist_filter [OF this, of ?P]
  have "sublist ''P'' (concat (map (filter ?P) (reasons_of a b c d False f)))"
    by (simp only: filter_join [OF s] fs)
  then show False
    unfolding reasons_of_def
    by (cases a; cases b; cases c; cases d; cases f)
       (simp_all only: pick_simps list.map concat.simps fs, simp_all add: sublist_Cons_right)
qed

lemma consent_in_join_iff:
  "sublist ''Privacy consent is required'' (join '', '' (reasons_of a b c d e f)) = e"
proof (cases e)
  case True
  then have "''Privacy consent is required'' \<in> set (reasons_of a b c d e f)"
    by (simp add: reasons_of_def pick_def)
  then show ?thesis using True by (simp add: sublist_join)
next
  case False
  then show ?thesis using consent_not_in_join by simp
qed

lemma length_not_in_join:
  "\<not> sublist ''Message must be 5000 characters or less'' (join '', '' (reasons_of a b c d e False))"
proof
  let ?P = "\<lambda>x. x = CHR ''5''"
  have fs:
    "filter ?P ''Name is required'' = ''''"
    "filter ?P ''Email is required'' = ''''"
    "filter ?P ''Subject is required'' = ''''"
    "filter ?P ''Message is required'' = ''''"
    "filter ?P ''Privacy consent is required'' = ''''"
    "filter ?P ''Message must be 5000 characters or less'' = ''5''"
    by simp_all
  have s: "filter ?P '', '' = []" by simp
  assume "sublist ''Message must be 5000 characters or less'' (join '', '' (reasons_of a b c d e False))"
  from sublist_filter [OF this, of ?P]
  have "sublist ''5'' (concat (map (filter ?P) (reasons_of a b c d e False)))"
    by (simp only: filter_join [OF s] fs)
  then show False
    unfolding reasons_of_def
    by (cases a; cases b; cases c; cases d; cases e)
       (simp_all only: pick_simps list.map concat.simps fs, simp_all add: sublist_Cons_right)
qed

lemma length_in_join_iff:
  "sublist ''Message must be 5000 characters or less'' (join '', '' (reasons_of a b c d e f)) = f"
proof (cases f)
  case True
  then have "''Message must be 5000 characters or less'' \<in> set (reasons_of a b c d e f)"
    by (simp add: reasons_of_def pick_def)
  then show ?thesis using True by (simp add: sublist_join)
next
  case False
  then show ?thesis using length_not_in_join by simp
qed

section \<open>The validator's outcomes\<close>

lemma honeypot_filled_string: "honeypot_filled (JString s) = Inr (trim s \<noteq> [])"
  by (simp add: honeypot_filled_def trim_def)

lemma honeypot_filled_falsy: "\<not> truthy h \<Longrightarrow> honeypot_filled h = Inr False"
  by (simp add: honeypot_filled_def)

lemma honeypot_filled_throws:
  "truthy h \<Longrightarrow> typeof h \<noteq> ''string'' \<Longrightarrow> honeypot_filled h = Inl TypeError"
  by (cases h) (simp_all add: honeypot_filled_def)

lemma honeypot_filled_throws_iff:
  "honeypot_filled h = Inl e \<longleftrightarrow> e = TypeError \<and> truthy h \<and> typeof h \<noteq> ''string''"
proof (cases "truthy h")
  case False
  then show ?thesis by (simp add: honeypot_filled_falsy)
next
  case True
  show ?thesis
  proof (cases "typeof h = ''string''")
    case s: True
    then obtain x where "h = JString x" by (cases h) simp_all
    with s show ?thesis by (simp add: honeypot_filled_string)
  next
    case False
    with True have "honeypot_filled h = Inl TypeError" by (rule honeypot_filled_throws)
    with True False show ?thesis by auto
  qed
qed

lemma message_too_long_string: "message_too_long c (JString s) = Inr (5000 < length s)"
  by (auto simp add: message_too_long_def)

lemma message_too_long_falsy: "\<not> truthy m \<Longrightarrow> message_too_long c m = Inr False"
  by (simp add: message_too_long_def)

text \<open>
  The length check can throw only for a message that is an object: an array has a
  number as its length, a boolean or a number has none.
\<close>

lemma message_too_long_returns:
  assumes "\<And>ps. m \<noteq> JObject ps"
  shows "\<exists>long. message_too_long c m = Inr long"
  using assms by (cases m) (auto simp add: message_too_long_def)

lemma message_too_long_throws:
  "message_too_long c (JObject [(js ''length'', JObject [(js ''toString'', JNull)])])
     = Inl TypeError"
  by (simp add: message_too_long_def)

lemma field_errors_reasons:
  "message_too_long c (b ''message'') = Inr long \<Longrightarrow>
   field_errors consent c b =
     Inr (reasons_of (required_missing (b ''name'')) (required_missing (b ''email''))
       (required_missing (b ''subject'')) (required_missing (b ''message''))
       (\<not> consent (b ''privacyConsent'')) long)"
  by (simp add: field_errors_def push_if_def reasons_of_def pick_def)

lemma field_errors_throws:
  "message_too_long c (b ''message'') = Inl e \<Longrightarrow> field_errors consent c b = Inl e"
  by (simp add: field_errors_def)

lemma validate_with_pass:
  "honeypot_filled (b ''honeypot'') = Inr False \<Longrightarrow>
   message_too_long c (b ''message'') = Inr long \<Longrightarrow>
   validate_with consent c b =
     Inr (final_result
       (reasons_of (required_missing (b ''name'')) (required_missing (b ''email''))
          (required_missing (b ''subject'')) (required_missing (b ''message''))
          (\<not> consent (b ''privacyConsent'')) long))"
  by (simp add: validate_with_def field_errors_reasons)

lemma validate_with_length_throws:
  "honeypot_filled (b ''honeypot'') = Inr False \<Longrightarrow>
   message_too_long c (b ''message'') = Inl e \<Longrightarrow>
   validate_with consent c b = Inl e"
  by (simp add: validate_with_def field_errors_throws)

lemma validate_with_spam:
  "honeypot_filled (b ''honeypot'') = Inr True \<Longrightarrow>
   validate_with consent c b = Inr \<lparr>valid = False, errors = ErrArray [''Spam detected'']\<rparr>"
  by (simp add: validate_with_def)

lemma validate_with_throws:
  "honeypot_filled (b ''honeypot'') = Inl e \<Longrightarrow> validate_with consent c b = Inl e"
  by (simp add: validate_with_def)

text \<open>
  The validator throws in two places: at the honeypot check, for a honeypot that is
  truthy and not a string, and at the length check, when the conversion of the
  message's \<^verbatim>\<open>length\<close> throws.
\<close>

lemma validate_with_throws_iff:
  "validate_with consent c b = Inl e \<longleftrightarrow>
     honeypot_filled (b ''honeypot'') = Inl e
     \<or> (honeypot_filled (b ''honeypot'') = Inr False \<and> message_too_long c (b ''message'') = Inl e)"
proof (cases "honeypot_filled (b ''honeypot'')")
  case (Inl e')
  then show ?thesis by (simp add: validate_with_throws)
next
  case (Inr spam)
  show ?thesis
  proof (cases spam)
    case True
    with Inr show ?thesis by (simp add: validate_with_spam)
  next
    case False
    with Inr have pass: "honeypot_filled (b ''honeypot'') = Inr False" by simp
    show ?thesis
    proof (cases "message_too_long c (b ''message'')")
      case (Inl e')
      with pass show ?thesis by (simp add: validate_with_length_throws)
    next
      case (Inr long)
      with pass show ?thesis by (simp add: validate_with_pass)
    qed
  qed
qed

lemma reports_final:
  "r \<noteq> [] \<Longrightarrow> reports r (Inr (final_result errs)) = sublist r (join '', '' errs)"
  by (cases errs) (simp_all add: reports_def final_result_def)

lemma reports_spam:
  "reports r (Inr \<lparr>valid = False, errors = ErrArray [''Spam detected'']\<rparr>) = (r = ''Spam detected'')"
  by (auto simp add: reports_def)

lemma reports_thrown: "reports r (Inl e) = False"
  by (simp add: reports_def)

lemma reports_name:
  "honeypot_filled (b ''honeypot'') = Inr False \<Longrightarrow>
   message_too_long c (b ''message'') = Inr long \<Longrightarrow>
   reports ''Name is required'' (validate_with consent c b) = required_missing (b ''name'')"
  by (simp add: validate_with_pass reports_final name_in_join_iff)

lemma reports_email:
  "honeypot_filled (b ''honeypot'') = Inr False \<Longrightarrow>
   message_too_long c (b ''message'') = Inr long \<Longrightarrow>
   reports ''Email is required'' (validate_with consent c b) = required_missing (b ''email'')"
  by (simp add: validate_with_pass reports_final email_in_join_iff)

lemma reports_subject:
  "honeypot_filled (b ''honeypot'') = Inr False \<Longrightarrow>
   message_too_long c (b ''message'') = Inr long \<Longrightarrow>
   reports ''Subject is required'' (validate_with consent c b) = required_missing (b ''subject'')"
  by (simp add: validate_with_pass reports_final subject_in_join_iff)

lemma reports_message:
  "honeypot_filled (b ''honeypot'') = Inr False \<Longrightarrow>
   message_too_long c (b ''message'') = Inr long \<Longrightarrow>
   reports ''Message is required'' (validate_with consent c b) = required_missing (b ''message'')"
  by (simp add: validate_with_pass reports_final message_in_join_iff)

lemma reports_consent:
  "honeypot_filled (b ''honeypot'') = Inr False \<Longrightarrow>
   message_too_long c (b ''message'') = Inr long \<Longrightarrow>
   reports ''Privacy consent is required'' (validate_with consent c b)
     = (\<not> consent (b ''privacyConsent''))"
  by (simp add: validate_with_pass reports_final consent_in_join_iff)

lemma reports_length:
  "honeypot_filled (b ''honeypot'') = Inr False \<Longrightarrow>
   message_too_long c (b ''message'') = Inr long \<Longrightarrow>
   reports ''Message must be 5000 characters or less'' (validate_with consent c b) = long"
  by (simp add: validate_with_pass reports_final length_in_join_iff)

text \<open>A field reason is reported only when both the honeypot and the length check return.\<close>

lemma reports_only_after_pass:
  assumes "r \<noteq> ''Spam detected''" and "reports r (validate_with consent c b)"
  shows "honeypot_filled (b ''honeypot'') = Inr False
         \<and> (\<exists>long. message_too_long c (b ''message'') = Inr long)"
proof (cases "honeypot_filled (b ''honeypot'')")
  case (Inl e)
  with assms show ?thesis by (simp add: validate_with_throws reports_thrown)
next
  case (Inr spam)
  show ?thesis
  proof (cases spam)
    case True
    with Inr assms show ?thesis by (simp add: validate_with_spam reports_spam)
  next
    case False
    with Inr have pass: "honeypot_filled (b ''honeypot'') = Inr False" by simp
    show ?thesis
    proof (cases "message_too_long c (b ''message'')")
      case (Inl e)
      with pass assms show ?thesis by (simp add: validate_with_length_throws reports_thrown)
    next
      case (Inr long)
      with pass show ?thesis by simp
    qed
  qed
qed

lemma required_missing_string: "required_missing (JString s) = (trim s = [])"
  by (auto simp add: required_missing_def trim_def)

lemma required_missing_other: "typeof v \<noteq> ''string'' \<Longrightarrow> required_missing v"
  by (simp add: required_missing_def)

lemma word_add_eq: "(a::code_unit) + k = c \<longleftrightarrow> a = c - k"
  by auto

lemma lower_unit_t: "lower_unit a = 0x74 \<longleftrightarrow> a = 0x74 \<or> a = 0x54"
  by (auto simp add: lower_unit_def word_add_eq)

lemma lower_unit_r: "lower_unit a = 0x72 \<longleftrightarrow> a = 0x72 \<or> a = 0x52"
  by (auto simp add: lower_unit_def word_add_eq)

lemma lower_unit_u: "lower_unit a = 0x75 \<longleftrightarrow> a = 0x75 \<or> a = 0x55"
  by (auto simp add: lower_unit_def word_add_eq)

lemma lower_unit_e: "lower_unit a = 0x65 \<longleftrightarrow> a = 0x65 \<or> a = 0x45"
  by (auto simp add: lower_unit_def word_add_eq)

lemma js_true: "js ''true'' = [0x74, 0x72, 0x75, 0x65]"
  by (simp add: js_def)

lemma toLowerCase_true: "toLowerCase s = js ''true'' \<longleftrightarrow> is_true_ignoring_case s"
proof -
  have "map lower_unit s = [0x74, 0x72, 0x75, 0x65] \<longleftrightarrow>
        (\<exists>a b c d. s = [a, b, c, d] \<and> lower_unit a = 0x74 \<and> lower_unit b = 0x72 \<and>
           lower_unit c = 0x75 \<and> lower_unit d = 0x65)"
    by (auto simp add: map_eq_Cons_conv)
  also have "\<dots> \<longleftrightarrow> is_true_ignoring_case s"
    by (auto simp add: is_true_ignoring_case_def lower_unit_t lower_unit_r lower_unit_u
          lower_unit_e split: list.splits)
  finally show ?thesis by (simp add: toLowerCase_def js_true)
qed

lemma toBoolean_iff:
  "toBoolean v \<longleftrightarrow> v = JBool True \<or> (\<exists>s. v = JString s \<and> is_true_ignoring_case s)"
  by (cases v) (simp_all add: toLowerCase_true)

section \<open>Claims about the validator\<close>

text \<open>
  C1, as amended. For a body that passes the honeypot check and whose length check
  returns, the validator of part_000 reports "Privacy consent is required" exactly
  when \<^verbatim>\<open>privacyConsent\<close> is neither the boolean \<^verbatim>\<open>true\<close> nor a string equal to
  \<^verbatim>\<open>true\<close> up to the case of its letters; the validator of index.mjs compares with
  \<^verbatim>\<open>!== true\<close> and reports the reason for everything but the boolean \<^verbatim>\<open>true\<close>, the
  string \<^verbatim>\<open>"true"\<close> included. (The length check returns for every message that is not
  an object, by \<open>message_too_long_returns\<close>.)
\<close>

theorem privacy_consent_accepted_values:
  assumes "honeypot_filled (b ''honeypot'') = Inr False"
    and "message_too_long c (b ''message'') = Inr long"
  shows "reports ''Privacy consent is required'' (validateContactBody c b)
           = (\<not> (b ''privacyConsent'' = JBool True
                  \<or> (\<exists>s. b ''privacyConsent'' = JString s \<and> is_true_ignoring_case s)))
         \<and> reports ''Privacy consent is required'' (validateContactBody_index c b)
           = (b ''privacyConsent'' \<noteq> JBool True)"
  using assms
  by (simp add: validateContactBody_def validateContactBody_index_def
        reports_consent [of b c long] toBoolean_iff)

theorem privacy_consent_accepted_values_witness:
  "\<not> reports ''Privacy consent is required''
       (validateContactBody sample_conv (empty_body(''privacyConsent'' := JString (js ''TRUE''))))
   \<and> reports ''Privacy consent is required''
       (validateContactBody sample_conv (empty_body(''privacyConsent'' := JNumber (Finite 1))))
   \<and> reports ''Privacy consent is required''
       (validateContactBody_index sample_conv (empty_body(''privacyConsent'' := JString (js ''TRUE''))))"
  using privacy_consent_accepted_values
          [of "empty_body(''privacyConsent'' := JString (js ''TRUE''))" sample_conv False]
        privacy_consent_accepted_values
          [of "empty_body(''privacyConsent'' := JNumber (Finite 1))" sample_conv False]
  by (simp add: honeypot_filled_def message_too_long_def empty_body_def js_def
        is_true_ignoring_case_def)

text \<open>
  C1 as stated fails: index.mjs rejects the string \<^verbatim>\<open>"true"\<close> of an otherwise complete
  body; with a filled honeypot part_000 returns the spam reason alone, without the
  consent reason for an absent \<^verbatim>\<open>privacyConsent\<close>; and for the message
  \<^verbatim>\<open>{"length": {"toString": null}}\<close> the validator throws at the length check and
  reports nothing, the consent reason for the absent \<^verbatim>\<open>privacyConsent\<close> included.
\<close>

theorem privacy_consent_counterexample:
  "validateContactBody_index sample_conv
     (empty_body(''name'' := JString (js ''Ann''), ''email'' := JString (js ''a@b.c''),
                 ''subject'' := JString (js ''Hi''), ''message'' := JString (js ''Hello''),
                 ''privacyConsent'' := JString (js ''true'')))
     = Inr \<lparr>valid = False, errors = ErrString ''Privacy consent is required''\<rparr>
   \<and> validateContactBody sample_conv (empty_body(''honeypot'' := JString (js ''bot'')))
     = Inr \<lparr>valid = False, errors = ErrArray [''Spam detected'']\<rparr>
   \<and> validateContactBody sample_conv unprintable_length_body = Inl TypeError"
  by (simp add: validateContactBody_index_def validateContactBody_def validate_with_def
        honeypot_filled_def final_result_def field_errors_def push_if_def required_missing_def
        message_too_long_def empty_body_def unprintable_length_body_def js_def trim_def
        is_white_space_def)

text \<open>
  C2, as amended. When the honeypot is a string that is not empty after trimming, both
  validators return \<^verbatim>\<open>{ valid: false, errors: ['Spam detected'] }\<close>, the array with that
  one reason (capital S), whatever the other fields hold.
\<close>

theorem honeypot_short_circuit:
  assumes "b ''honeypot'' = JString s" and "trim s \<noteq> []"
  shows "validateContactBody c b = Inr \<lparr>valid = False, errors = ErrArray [''Spam detected'']\<rparr>
         \<and> validateContactBody_index c b
             = Inr \<lparr>valid = False, errors = ErrArray [''Spam detected'']\<rparr>"
  using assms
  by (simp add: validateContactBody_def validateContactBody_index_def validate_with_spam
        honeypot_filled_string)

theorem honeypot_short_circuit_witness:
  "validateContactBody sample_conv
     (empty_body(''honeypot'' := JString (js '' bot ''), ''name'' := JNumber (Finite 7)))
     = Inr \<lparr>valid = False, errors = ErrArray [''Spam detected'']\<rparr>
   \<and> validateContactBody_index sample_conv
     (empty_body(''honeypot'' := JString (js '' bot ''), ''name'' := JNumber (Finite 7)))
     = Inr \<lparr>valid = False, errors = ErrArray [''Spam detected'']\<rparr>"
  using honeypot_short_circuit
          [of "empty_body(''honeypot'' := JString (js '' bot ''), ''name'' := JNumber (Finite 7))"
              "js '' bot ''" sample_conv]
  by (simp add: js_def trim_def is_white_space_def)

text \<open>
  C2 as stated names the reason \<^verbatim>\<open>"spam detected"\<close>; the array the code returns holds
  \<^verbatim>\<open>'Spam detected'\<close>.
\<close>

theorem honeypot_reason_counterexample:
  "validateContactBody sample_conv (empty_body(''honeypot'' := JString (js ''bot'')))
     \<noteq> Inr \<lparr>valid = False, errors = ErrArray [''spam detected'']\<rparr>"
  by (simp add: validateContactBody_def validate_with_def honeypot_filled_def empty_body_def
        js_def trim_def is_white_space_def)

text \<open>
  C3 fails on the code: a honeypot that is truthy and not a string (here the number 1)
  makes \<^verbatim>\<open>body.honeypot.trim()\<close> throw a TypeError in both files, where the checks of
  name, email, subject and message test \<^verbatim>\<open>typeof\<close> first. The handler catches the
  exception and answers 500 "Server error" instead of a validation result.
\<close>

theorem validator_throws_on_number_honeypot:
  "validateContactBody c (empty_body(''honeypot'' := JNumber (Finite 1))) = Inl TypeError
   \<and> validateContactBody_index c (empty_body(''honeypot'' := JNumber (Finite 1)))
       = Inl TypeError
   \<and> fst (contact_handler e
             (req\<lparr>req_body := empty_body(''honeypot'' := JNumber (Finite 1))\<rparr>))
       = \<lparr>status = 500, json = OkFalse (ErrString ''Server error'')\<rparr>
   \<and> fst (contact_handler_index e
             (req\<lparr>req_body := empty_body(''honeypot'' := JNumber (Finite 1))\<rparr>))
       = \<lparr>status = 500, json = OkFalse (ErrString ''Server error'')\<rparr>"
  by (simp add: validateContactBody_def validateContactBody_index_def validate_with_def
        honeypot_filled_def empty_body_def contact_handler_def contact_handler_index_def
        server_error_def)

text \<open>
  C6, as amended. For a message that is a string of at most 5000 code units (exactly
  5000 included) neither validator reports the length reason; for a string of 5001 or
  more code units both report "Message must be 5000 characters or less", provided the
  body passes the honeypot check.
\<close>

theorem message_length_bound:
  assumes "b ''message'' = JString m"
  shows "(length m \<le> 5000 \<longrightarrow>
            \<not> reports ''Message must be 5000 characters or less'' (validateContactBody c b)
            \<and> \<not> reports ''Message must be 5000 characters or less''
                  (validateContactBody_index c b))
         \<and> (5001 \<le> length m \<and> honeypot_filled (b ''honeypot'') = Inr False \<longrightarrow>
            reports ''Message must be 5000 characters or less'' (validateContactBody c b)
            \<and> reports ''Message must be 5000 characters or less''
                 (validateContactBody_index c b))"
proof (intro conjI impI)
  have len: "message_too_long c (b ''message'') = Inr (5000 < length m)"
    using assms by (simp add: message_too_long_string)
  {
    assume short: "length m \<le> 5000"
    have no: "\<not> reports ''Message must be 5000 characters or less'' (validate_with consent c b)"
      for consent
    proof
      assume r: "reports ''Message must be 5000 characters or less'' (validate_with consent c b)"
      then have "honeypot_filled (b ''honeypot'') = Inr False"
        using reports_only_after_pass
                [of "''Message must be 5000 characters or less''" consent c b]
        by simp
      with r len have "5000 < length m"
        by (simp add: reports_length)
      with short show False by simp
    qed
    show "\<not> reports ''Message must be 5000 characters or less'' (validateContactBody c b)"
      unfolding validateContactBody_def by (rule no)
    show "\<not> reports ''Message must be 5000 characters or less'' (validateContactBody_index c b)"
      unfolding validateContactBody_index_def by (rule no)
  }
  {
    assume long: "5001 \<le> length m \<and> honeypot_filled (b ''honeypot'') = Inr False"
    with len
    show "reports ''Message must be 5000 characters or less'' (validateContactBody c b)"
      by (simp add: validateContactBody_def reports_length)
    from long len
    show "reports ''Message must be 5000 characters or less'' (validateContactBody_index c b)"
      by (simp add: validateContactBody_index_def reports_length)
  }
qed

theorem message_length_bound_witness:
  "\<not> reports ''Message must be 5000 characters or less''
       (validateContactBody sample_conv (empty_body(''message'' := JString (replicate 5000 0x61))))
   \<and> reports ''Message must be 5000 characters or less''
       (validateContactBody sample_conv (empty_body(''message'' := JString (replicate 5001 0x61))))
   \<and> reports ''Message must be 5000 characters or less''
       (validateContactBody_index sample_conv
          (empty_body(''message'' := JString (replicate 5001 0x61))))"
  using message_length_bound
          [of "empty_body(''message'' := JString (replicate 5000 0x61))" "replicate 5000 0x61"
              sample_conv]
        message_length_bound
          [of "empty_body(''message'' := JString (replicate 5001 0x61))" "replicate 5001 0x61"
              sample_conv]
  by (simp add: honeypot_filled_def empty_body_def)

text \<open>
  C6 as stated fails for a body with a filled honeypot: its message of 5001 code units
  is answered with the spam reason alone.
\<close>

theorem message_length_counterexample:
  "validateContactBody sample_conv
     (empty_body(''honeypot'' := JString (js ''bot''),
                 ''message'' := JString (replicate 5001 0x61)))
     = Inr \<lparr>valid = False, errors = ErrArray [''Spam detected'']\<rparr>
   \<and> \<not> reports ''Message must be 5000 characters or less''
        (validateContactBody sample_conv
           (empty_body(''honeypot'' := JString (js ''bot''),
                       ''message'' := JString (replicate 5001 0x61))))"
  by (simp add: validateContactBody_def validate_with_def honeypot_filled_def empty_body_def
        reports_def js_def trim_def is_white_space_def)

text \<open>
  What the validator does for every body on which both the honeypot check and the
  length check return: the returned \<^verbatim>\<open>errors\<close> is the text of all reasons whose check
  failed, joined with \<^verbatim>\<open>', '\<close> in the fixed order name, email, subject, message,
  consent, length (and \<^verbatim>\<open>null\<close> with \<^verbatim>\<open>valid: true\<close> when none failed), and the reason
  of every required field that is missing occurs in that text.
\<close>

lemma reasons_joined_in_order:
  assumes "honeypot_filled (b ''honeypot'') = Inr False"
    and "message_too_long c (b ''message'') = Inr long"
  shows "validateContactBody c b
           = Inr (final_result
               (reasons_of (required_missing (b ''name'')) (required_missing (b ''email''))
                  (required_missing (b ''subject'')) (required_missing (b ''message''))
                  (\<not> toBoolean (b ''privacyConsent'')) long))
         \<and> validateContactBody_index c b
           = Inr (final_result
               (reasons_of (required_missing (b ''name'')) (required_missing (b ''email''))
                  (required_missing (b ''subject'')) (required_missing (b ''message''))
                  (b ''privacyConsent'' \<noteq> JBool True) long))
         \<and> (required_missing (b ''name'') \<longrightarrow>
              reports ''Name is required'' (validateContactBody c b)
              \<and> reports ''Name is required'' (validateContactBody_index c b))
         \<and> (required_missing (b ''email'') \<longrightarrow>
              reports ''Email is required'' (validateContactBody c b)
              \<and> reports ''Email is required'' (validateContactBody_index c b))
         \<and> (required_missing (b ''subject'') \<longrightarrow>
              reports ''Subject is required'' (validateContactBody c b)
              \<and> reports ''Subject is required'' (validateContactBody_index c b))
         \<and> (required_missing (b ''message'') \<longrightarrow>
              reports ''Message is required'' (validateContactBody c b)
              \<and> reports ''Message is required'' (validateContactBody_index c b))"
proof (intro conjI impI)
  show "validateContactBody c b
           = Inr (final_result
               (reasons_of (required_missing (b ''name'')) (required_missing (b ''email''))
                  (required_missing (b ''subject'')) (required_missing (b ''message''))
                  (\<not> toBoolean (b ''privacyConsent'')) long))"
    using assms by (simp add: validateContactBody_def validate_with_pass)
  show "validateContactBody_index c b
           = Inr (final_result
               (reasons_of (required_missing (b ''name'')) (required_missing (b ''email''))
                  (required_missing (b ''subject'')) (required_missing (b ''message''))
                  (b ''privacyConsent'' \<noteq> JBool True) long))"
    using assms by (simp add: validateContactBody_index_def validate_with_pass)
qed (simp_all add: validateContactBody_def validateContactBody_index_def
       reports_name [of b c long, OF assms] reports_email [of b c long, OF assms]
       reports_subject [of b c long, OF assms] reports_message [of b c long, OF assms])

lemma reasons_joined_in_order_example:
  "validateContactBody sample_conv
     (empty_body(''honeypot'' := JString [], ''email'' := JString (js ''a@b.c''),
                 ''message'' := JString (js ''  '')))
     = Inr \<lparr>valid = False,
            errors = ErrString
              ''Name is required, Subject is required, Message is required, Privacy consent is required''\<rparr>"
proof -
  let ?b = "empty_body(''honeypot'' := JString [], ''email'' := JString (js ''a@b.c''),
                       ''message'' := JString (js ''  ''))"
  have pass: "honeypot_filled (?b ''honeypot'') = Inr False"
    by (simp add: honeypot_filled_def)
  have len: "message_too_long sample_conv (?b ''message'') = Inr False"
    by (simp add: message_too_long_string js_def)
  have flags: "required_missing (?b ''name'')" "\<not> required_missing (?b ''email'')"
    "required_missing (?b ''subject'')" "required_missing (?b ''message'')"
    "\<not> toBoolean (?b ''privacyConsent'')"
    by (simp_all add: empty_body_def required_missing_def js_def trim_def is_white_space_def)
  from reasons_joined_in_order [of ?b sample_conv False, OF pass len]
  have "validateContactBody sample_conv ?b
     = Inr (final_result (reasons_of True False True True True False))"
    using flags by simp
  then show ?thesis
    by (simp add: reasons_of_def pick_def final_result_def)
qed

text \<open>
  C7 fails on the code: a body with an empty honeypot and no name, email or subject
  whose message is the parsed JSON \<^verbatim>\<open>{"length": {"toString": null}}\<close> gets no joined
  error string at all. The presence check of the message tests \<^verbatim>\<open>typeof\<close>, the length
  check \<^verbatim>\<open>body.message && body.message.length > 5000\<close> does not: the comparison
  converts the object held by \<^verbatim>\<open>length\<close> to a primitive, which throws a TypeError in
  both files, and the handler answers 500 "Server error".
\<close>

theorem validator_throws_at_length_check:
  "honeypot_filled (unprintable_length_body ''honeypot'') = Inr False
   \<and> required_missing (unprintable_length_body ''name'')
   \<and> required_missing (unprintable_length_body ''message'')
   \<and> validateContactBody c unprintable_length_body = Inl TypeError
   \<and> validateContactBody_index c unprintable_length_body = Inl TypeError
   \<and> reports ''Name is required'' (validateContactBody c unprintable_length_body) = False
   \<and> fst (contact_handler e (req\<lparr>req_body := unprintable_length_body\<rparr>))
       = \<lparr>status = 500, json = OkFalse (ErrString ''Server error'')\<rparr>
   \<and> fst (contact_handler_index e (req\<lparr>req_body := unprintable_length_body\<rparr>))
       = \<lparr>status = 500, json = OkFalse (ErrString ''Server error'')\<rparr>"
proof -
  have pass: "honeypot_filled (unprintable_length_body ''honeypot'') = Inr False"
    by (simp add: honeypot_filled_def unprintable_length_body_def empty_body_def)
  have len: "message_too_long cv (unprintable_length_body ''message'') = Inl TypeError" for cv
    by (simp add: unprintable_length_body_def message_too_long_throws)
  have throws: "validate_with consent cv unprintable_length_body = Inl TypeError"
    for consent cv
    using pass len by (rule validate_with_length_throws)
  have missing: "required_missing (unprintable_length_body ''name'')"
    "required_missing (unprintable_length_body ''message'')"
    by (simp_all add: required_missing_def unprintable_length_body_def empty_body_def)
  show ?thesis
    by (simp add: pass missing validateContactBody_def validateContactBody_index_def throws
          reports_thrown contact_handler_def contact_handler_index_def server_error_def)
qed

text \<open>
  C8, as amended. "Message is required" and "Message must be 5000 characters or less"
  are reported together exactly when the body passes the honeypot check and its
  message fails the presence test while its length exceeds 5000: for a string, when
  it consists of white space only and has more than 5000 code units. They are never
  reported together for a message that is absent, empty, or a string with other than
  white space in it.
\<close>

theorem message_reasons_together:
  "((reports ''Message is required'' (validateContactBody c b)
       \<and> reports ''Message must be 5000 characters or less'' (validateContactBody c b))
      = (honeypot_filled (b ''honeypot'') = Inr False \<and> required_missing (b ''message'')
          \<and> message_too_long c (b ''message'') = Inr True))
   \<and> ((reports ''Message is required'' (validateContactBody_index c b)
       \<and> reports ''Message must be 5000 characters or less'' (validateContactBody_index c b))
      = (honeypot_filled (b ''honeypot'') = Inr False \<and> required_missing (b ''message'')
          \<and> message_too_long c (b ''message'') = Inr True))
   \<and> (\<forall>s. b ''message'' = JString s \<longrightarrow>
         (required_missing (b ''message'') \<and> message_too_long c (b ''message'') = Inr True)
           = (trim s = [] \<and> 5000 < length s))
   \<and> (\<not> truthy (b ''message'') \<longrightarrow> message_too_long c (b ''message'') = Inr False)"
proof -
  have both:
    "(reports ''Message is required'' (validate_with consent c b)
       \<and> reports ''Message must be 5000 characters or less'' (validate_with consent c b))
      = (honeypot_filled (b ''honeypot'') = Inr False \<and> required_missing (b ''message'')
          \<and> message_too_long c (b ''message'') = Inr True)" for consent
  proof (cases "honeypot_filled (b ''honeypot'') = Inr False
                \<and> (\<exists>long. message_too_long c (b ''message'') = Inr long)")
    case True
    then obtain long where "honeypot_filled (b ''honeypot'') = Inr False"
      and "message_too_long c (b ''message'') = Inr long"
      by blast
    then show ?thesis
      by (simp add: reports_message [of b c long] reports_length [of b c long])
  next
    case False
    then have "\<not> reports ''Message is required'' (validate_with consent c b)"
      using reports_only_after_pass [of "''Message is required''" consent c b] by auto
    with False show ?thesis by auto
  qed
  show ?thesis
    by (simp add: validateContactBody_def validateContactBody_index_def both
          required_missing_string message_too_long_string message_too_long_falsy)
qed

theorem message_reasons_together_witness:
  "\<not> (reports ''Message is required''
        (validateContactBody sample_conv (empty_body(''message'' := JString (js ''Hello''))))
      \<and> reports ''Message must be 5000 characters or less''
        (validateContactBody sample_conv (empty_body(''message'' := JString (js ''Hello'')))))"
  using message_reasons_together [of sample_conv "empty_body(''message'' := JString (js ''Hello''))"]
  by (simp add: honeypot_filled_def empty_body_def required_missing_def js_def trim_def
        is_white_space_def)

text \<open>
  C8 as stated fails: a message of 5001 spaces is empty after trimming and longer than
  5000, and both reasons are reported.
\<close>

theorem message_reasons_counterexample:
  "reports ''Message is required''
     (validateContactBody sample_conv (empty_body(''message'' := JString (replicate 5001 0x20))))
   \<and> reports ''Message must be 5000 characters or less''
     (validateContactBody sample_conv (empty_body(''message'' := JString (replicate 5001 0x20))))"
proof -
  let ?b = "empty_body(''message'' := JString (replicate 5001 0x20))"
  have pass: "honeypot_filled (?b ''honeypot'') = Inr False"
    by (simp add: honeypot_filled_def empty_body_def)
  have len: "message_too_long sample_conv (?b ''message'') = Inr True"
    by (simp add: message_too_long_string)
  have "required_missing (?b ''message'')"
    by (simp add: required_missing_string trim_def is_white_space_def)
  with pass len show ?thesis
    by (simp add: validateContactBody_def reports_message [of ?b sample_conv True]
          reports_length [of ?b sample_conv True])
qed

text \<open>
  C10. Two bodies that agree on honeypot, name, email, subject, message and
  privacyConsent get the same result from the validator, whatever else they hold.
\<close>

theorem validation_reads_six_fields:
  assumes "b1 ''honeypot'' = b2 ''honeypot''" and "b1 ''name'' = b2 ''name''"
    and "b1 ''email'' = b2 ''email''" and "b1 ''subject'' = b2 ''subject''"
    and "b1 ''message'' = b2 ''message''" and "b1 ''privacyConsent'' = b2 ''privacyConsent''"
  shows "validateContactBody c b1 = validateContactBody c b2
         \<and> validateContactBody_index c b1 = validateContactBody_index c b2"
proof -
  have "field_errors consent c b1 = field_errors consent c b2" for consent
    using assms by (simp add: field_errors_def)
  with assms(1) show ?thesis
    by (simp add: validateContactBody_def validateContactBody_index_def validate_with_def
          split: sum.split bool.split)
qed

theorem validation_reads_six_fields_witness:
  "validateContactBody sample_conv
     (empty_body(''name'' := JString (js ''Ann''), ''company'' := JString (js ''Acme'')))
   = validateContactBody sample_conv
     (empty_body(''name'' := JString (js ''Ann''), ''phone'' := JNumber (Finite 5),
                 ''timestamp'' := JBool True))
   \<and> empty_body(''name'' := JString (js ''Ann''), ''company'' := JString (js ''Acme''))
     \<noteq> empty_body(''name'' := JString (js ''Ann''), ''phone'' := JNumber (Finite 5),
                  ''timestamp'' := JBool True)"
proof -
  have "(empty_body(''name'' := JString (js ''Ann''), ''company'' := JString (js ''Acme'')))
          ''phone''
        \<noteq> (empty_body(''name'' := JString (js ''Ann''), ''phone'' := JNumber (Finite 5),
                  ''timestamp'' := JBool True)) ''phone''"
    by (simp add: empty_body_def)
  then have "empty_body(''name'' := JString (js ''Ann''), ''company'' := JString (js ''Acme''))
     \<noteq> empty_body(''name'' := JString (js ''Ann''), ''phone'' := JNumber (Finite 5),
                  ''timestamp'' := JBool True)"
    by metis
  then show ?thesis
    using validation_reads_six_fields
            [of "empty_body(''name'' := JString (js ''Ann''), ''company'' := JString (js ''Acme''))"
                "empty_body(''name'' := JString (js ''Ann''), ''phone'' := JNumber (Finite 5),
                  ''timestamp'' := JBool True)" sample_conv]
    by (simp add: empty_body_def)
qed

section \<open>Claims about the payload and the handler\<close>
















lemma sample_valid:
  "validateContactBody c sample_body = Inr \<lparr>valid = True, errors = ErrNull\<rparr>"
  "validateContactBody_index c sample_body = Inr \<lparr>valid = True, errors = ErrNull\<rparr>"
  by (simp_all add: validateContactBody_def validateContactBody_index_def validate_with_def
        honeypot_filled_def final_result_def field_errors_def push_if_def required_missing_def
        message_too_long_def sample_body_def empty_body_def js_def trim_def is_white_space_def)

lemma sample_payload:
  "build_payload now sample_request =
     Inr [(''name'', JString (js ''Ann'')), (''email'', JString (js ''ann@example.com'')),
          (''subject'', JString (js ''Hi'')), (''message'', JString (js ''Hello'')),
          (''company'', JNull), (''phone'', JNull),
          (''whatsappConsent'', JBool False), (''privacyConsent'', JBool True),
          (''ip'', JString (js ''10.0.0.7'')), (''userAgent'', JString (js ''curl/8'')),
          (''language'', JNull), (''timestamp'', JNull), (''createdAt'', JString now)]"
  by (simp add: build_payload_def bind_e_def trimmed_def trim_or_null_def js_or_def header_def
        getClientIp_def remote_or_unknown_def sample_request_def sample_body_def empty_body_def
        js_def trim_def is_white_space_def)

lemma sample_payload_index:
  "build_payload_index now sample_request =
     Inr [(''name'', JString (js ''Ann'')), (''email'', JString (js ''ann@example.com'')),
          (''subject'', JString (js ''Hi'')), (''message'', JString (js ''Hello'')),
          (''company'', JNull), (''phone'', JNull),
          (''ip'', JString (js ''10.0.0.7'')), (''userAgent'', JString (js ''curl/8'')),
          (''language'', JNull), (''createdAt'', JString now)]"
  by (simp add: build_payload_index_def bind_e_def trimmed_def trim_or_null_def js_or_def
        header_def getClientIp_def remote_or_unknown_def sample_request_def sample_body_def
        empty_body_def js_def trim_def is_white_space_def)




text \<open>
  C9. When the submission is valid, the payload is built and the token is signed, a
  failed forward attempt (the fetch rejects, or the downstream answers with a status
  outside 200-299) is answered with status 500 and the body
  \<^verbatim>\<open>{ ok: false, error: 'n8n error' }\<close>, in which nothing of the downstream's status or
  body occurs. Both files agree.
\<close>

theorem forward_failure_response:
  "(validateContactBody (conversions e) (req_body req) = Inr v \<and> valid v
      \<and> build_payload (now_iso e) req = Inr p \<and> sign_jwt e = Inr jwt
      \<and> forward_failed (fetch e (webhook_request e jwt p)) \<longrightarrow>
    fst (contact_handler e req)
      = \<lparr>status = 500, json = OkFalse (ErrString ''n8n error'')\<rparr>)
   \<and> (validateContactBody_index (conversions e) (req_body req) = Inr v' \<and> valid v'
      \<and> build_payload_index (now_iso e) req = Inr p' \<and> sign_jwt e = Inr jwt
      \<and> forward_failed (fetch e (webhook_request e jwt p')) \<longrightarrow>
    fst (contact_handler_index e req)
      = \<lparr>status = 500, json = OkFalse (ErrString ''n8n error'')\<rparr>)"
  by (auto simp add: contact_handler_def contact_handler_index_def forward_failed_def
        n8n_error_def split: fetch_result.splits)

theorem forward_failure_response_witness:
  "fst (contact_handler (sample_env (\<lambda>out. Resolved 503 (Some (js ''upstream down''))))
          sample_request)
     = \<lparr>status = 500, json = OkFalse (ErrString ''n8n error'')\<rparr>
   \<and> fst (contact_handler_index (sample_env (\<lambda>out. Rejected (js ''connect ECONNREFUSED'')))
          sample_request)
     = \<lparr>status = 500, json = OkFalse (ErrString ''n8n error'')\<rparr>"
proof -
  let ?e1 = "sample_env (\<lambda>out. Resolved 503 (Some (js ''upstream down'')))"
  let ?e2 = "sample_env (\<lambda>out. Rejected (js ''connect ECONNREFUSED''))"
  have b: "req_body sample_request = sample_body"
    by (simp add: sample_request_def)
  have "fst (contact_handler ?e1 sample_request)
     = \<lparr>status = 500, json = OkFalse (ErrString ''n8n error'')\<rparr>"
    using forward_failure_response
            [of ?e1 sample_request "\<lparr>valid = True, errors = ErrNull\<rparr>" _ "js ''token''"]
    by (simp add: b sample_valid sample_payload sample_env_def forward_failed_def
          response_ok_def)
  moreover have "fst (contact_handler_index ?e2 sample_request)
     = \<lparr>status = 500, json = OkFalse (ErrString ''n8n error'')\<rparr>"
    using forward_failure_response
            [of ?e2 sample_request _ _ "js ''token''" "\<lparr>valid = True, errors = ErrNull\<rparr>"]
    by (simp add: b sample_valid sample_payload_index sample_env_def forward_failed_def)
  ultimately show ?thesis by simp
qed

section \<open>Claims about admission control\<close>

lemma check_other: "k' \<noteq> k \<Longrightarrow> fst (check tbl k' now) k = tbl k"
  by (simp add: check_def Let_def)

lemma counted_other:
  "k' \<noteq> k \<Longrightarrow> counted (fst (check tbl k' now)) k t0 n = counted tbl k t0 n"
  by (simp add: counted_def no_live_window_def check_other)

lemma check_counted:
  assumes "counted tbl k t0 n" and "t0 \<le> now" and "now < t0 + 60000"
  shows "counted (fst (check tbl k now)) k t0 (Suc n)
         \<and> (snd (check tbl k now) = Admitted) = (n < 3)"
proof (cases "n = 0")
  case True
  with assms show ?thesis
    by (auto simp add: counted_def no_live_window_def check_def Let_def windowMs_def
          max_hits_def split: option.splits)
next
  case False
  with assms obtain w where w: "tbl k = Some w" "hits w = n" "t0 \<le> window_start w"
    by (auto simp add: counted_def split: option.splits)
  with assms(3) have "now < window_start w + windowMs"
    by (simp add: windowMs_def)
  with w False show ?thesis
    by (auto simp add: counted_def check_def Let_def max_hits_def)
qed

lemma route_with_alt:
  "route_with key h tbl now e req
     = (fst (check tbl (key req) now),
        if snd (check tbl (key req) now) = Admitted then h e req else (too_many_requests, []))"
proof (cases "check tbl (key req) now")
  case (Pair tbl' d)
  then show ?thesis by (cases d) (simp_all add: route_with_def)
qed

text \<open>
  The answers to the requests of one key, whatever requests of other keys come in
  between: the table's count for the key decides, and no other key's request changes
  that count.
\<close>

lemma answers_per_key:
  assumes "counted tbl k t0 n" and "key_window key k t0 rs"
  shows "answers_to key k rs (serve_with key h tbl rs)
           = map (\<lambda>(i, now, e, req). if i < 3 then h e req else (too_many_requests, []))
               (enumerate n (requests_of key k rs))"
  using assms
proof (induction rs arbitrary: tbl n)
  case Nil
  then show ?case by (simp add: answers_to_def requests_of_def)
next
  case (Cons x rs)
  obtain now e req where x: "x = (now, e, req)" by (cases x)
  from Cons.prems(2) have rest: "key_window key k t0 rs"
    by (simp add: key_window_def)
  let ?tbl = "fst (check tbl (key req) now)"
  show ?case
  proof (cases "key req = k")
    case False
    with Cons.prems(1) have "counted ?tbl k t0 n"
      by (simp add: counted_other)
    from Cons.IH [OF this rest] False show ?thesis
      by (simp add: x route_with_alt answers_to_def requests_of_def)
  next
    case True
    with Cons.prems(2) x have "t0 \<le> now" and "now < t0 + 60000"
      by (simp_all add: key_window_def)
    with Cons.prems(1) have c: "counted (fst (check tbl k now)) k t0 (Suc n)"
      and d: "(snd (check tbl k now) = Admitted) = (n < 3)"
      using check_counted [of tbl k t0 n now] by simp_all
    from c True have "counted ?tbl k t0 (Suc n)" by simp
    from Cons.IH [OF this rest] True d show ?thesis
      by (simp add: x route_with_alt answers_to_def requests_of_def)
  qed
qed

lemma counted_fresh: "no_live_window tbl k t0 \<Longrightarrow> counted tbl k t0 0"
  by (simp add: counted_def)

text \<open>
  C5, as amended, against the limiter modelled from the specification. The quota is
  kept per limiter key: the result of \<^verbatim>\<open>keyGenerator\<close> in part_000, the library's default
  key in index.mjs. When a key has no open window at \<open>t0\<close> and its requests arrive
  within the 60 seconds from \<open>t0\<close>, then, whatever requests of other keys come in
  between, the first three of them are handed to the handler (whose first step is
  validation) and the fourth and every later one is answered with status 429 and
  \<^verbatim>\<open>{ ok: false, error: 'Too many requests, please try again later' }\<close>, without the
  handler running: the answer is the same for every body and nothing is logged.
\<close>

theorem three_requests_per_key:
  "(no_live_window tbl k t0 \<and> key_window keyGenerator k t0 rs \<longrightarrow>
    answers_to keyGenerator k rs (serve tbl rs)
      = map (\<lambda>(i, now, e, req).
               if i < 3 then contact_handler e req
               else (\<lparr>status = 429,
                      json = OkFalse (ErrString ''Too many requests, please try again later'')\<rparr>,
                     []))
          (enumerate 0 (requests_of keyGenerator k rs)))
   \<and> (no_live_window tbl k t0 \<and> key_window key k t0 rs \<longrightarrow>
    answers_to key k rs (serve_index key tbl rs)
      = map (\<lambda>(i, now, e, req).
               if i < 3 then contact_handler_index e req
               else (\<lparr>status = 429,
                      json = OkFalse (ErrString ''Too many requests, please try again later'')\<rparr>,
                     []))
          (enumerate 0 (requests_of key k rs)))"
  using answers_per_key [of tbl k t0 0 keyGenerator rs contact_handler]
    answers_per_key [of tbl k t0 0 key rs contact_handler_index]
  unfolding serve_def serve_index_def too_many_requests_def
  by (simp add: counted_fresh)

lemma sample_key: "keyGenerator sample_request = js ''10.0.0.7''"
  by (simp add: keyGenerator_def ip_or_remote_def sample_request_def js_def)

lemma proxied_key_v6:
  "keyGenerator (proxied_request (js ''2001:db8::1, 203.0.113.9'')) = js ''203.0.113.9''"
  "keyGenerator (proxied_request (js ''2001:db8::2, 203.0.113.9'')) = js ''203.0.113.9''"
  by (simp_all add: keyGenerator_def ip_or_remote_def proxied_request_def split_first_def
        trim_def is_white_space_def is_ip_text_def js_def)

lemma proxied_identity_v6:
  "getClientIp (proxied_request (js ''2001:db8::1, 203.0.113.9'')) = js ''2001:db8::1''"
  "getClientIp (proxied_request (js ''2001:db8::2, 203.0.113.9'')) = js ''2001:db8::2''"
  by (simp_all add: getClientIp_def proxied_request_def split_first_def trim_def
        is_white_space_def js_def)

lemma sample_delivered:
  "contact_handler (sample_env (\<lambda>out. Resolved 200 None)) sample_request
     = (\<lparr>status = 200, json = OkTrue\<rparr>, [])"
  by (simp add: contact_handler_def sample_env_def sample_valid sample_payload response_ok_def
        sample_request_def [THEN arg_cong, of req_body])

lemma proxied_delivered:
  "contact_handler (sample_env (\<lambda>out. Resolved 200 None)) (proxied_request f)
     = (\<lparr>status = 200, json = OkTrue\<rparr>, [])"
proof -
  have b: "req_body (proxied_request f) = sample_body"
    by (simp add: proxied_request_def)
  have "\<exists>p. build_payload now (proxied_request f) = Inr p" for now
    by (simp add: build_payload_def bind_e_def trimmed_def trim_or_null_def b sample_body_def
          empty_body_def)
  then obtain p where "build_payload (js ''2024-11-17T10:30:00.000Z'') (proxied_request f) = Inr p"
    by blast
  then show ?thesis
    by (simp add: contact_handler_def sample_env_def b sample_valid response_ok_def)
qed

theorem three_requests_per_key_witness:
  "map (\<lambda>out. status (fst out))
     (answers_to keyGenerator (js ''10.0.0.7'')
        [(1000, sample_env (\<lambda>out. Resolved 200 None), sample_request),
         (1500, sample_env (\<lambda>out. Resolved 200 None),
            proxied_request (js ''2001:db8::1, 203.0.113.9'')),
         (2000, sample_env (\<lambda>out. Resolved 200 None), sample_request),
         (30000, sample_env (\<lambda>out. Resolved 200 None), sample_request),
         (60999, sample_env (\<lambda>out. Resolved 200 None), sample_request),
         (60999, sample_env (\<lambda>out. Resolved 200 None),
            sample_request\<lparr>req_body := empty_body(''honeypot'' := JNumber (Finite 1))\<rparr>)]
        (serve Map.empty
           [(1000, sample_env (\<lambda>out. Resolved 200 None), sample_request),
            (1500, sample_env (\<lambda>out. Resolved 200 None),
               proxied_request (js ''2001:db8::1, 203.0.113.9'')),
            (2000, sample_env (\<lambda>out. Resolved 200 None), sample_request),
            (30000, sample_env (\<lambda>out. Resolved 200 None), sample_request),
            (60999, sample_env (\<lambda>out. Resolved 200 None), sample_request),
            (60999, sample_env (\<lambda>out. Resolved 200 None),
               sample_request\<lparr>req_body := empty_body(''honeypot'' := JNumber (Finite 1))\<rparr>)]))
     = [200, 200, 200, 429, 429]"
proof -
  let ?e = "sample_env (\<lambda>out. Resolved 200 None)"
  let ?bad = "sample_request\<lparr>req_body := empty_body(''honeypot'' := JNumber (Finite 1))\<rparr>"
  let ?other = "proxied_request (js ''2001:db8::1, 203.0.113.9'')"
  let ?rs = "[(1000, ?e, sample_request), (1500, ?e, ?other), (2000, ?e, sample_request),
              (30000, ?e, sample_request), (60999, ?e, sample_request), (60999, ?e, ?bad)]"
  have kb: "keyGenerator ?bad = js ''10.0.0.7''"
    by (simp add: keyGenerator_def ip_or_remote_def sample_request_def js_def)
  have ne: "js ''203.0.113.9'' \<noteq> js ''10.0.0.7''"
    by (simp add: js_def)
  have "no_live_window Map.empty (js ''10.0.0.7'') 1000"
    by (simp add: no_live_window_def)
  moreover have "key_window keyGenerator (js ''10.0.0.7'') 1000 ?rs"
    by (simp add: key_window_def sample_key kb proxied_key_v6 ne)
  ultimately have "answers_to keyGenerator (js ''10.0.0.7'') ?rs (serve Map.empty ?rs)
      = map (\<lambda>(i, now, e, req).
               if i < 3 then contact_handler e req
               else (\<lparr>status = 429,
                      json = OkFalse (ErrString ''Too many requests, please try again later'')\<rparr>,
                     []))
          (enumerate 0 (requests_of keyGenerator (js ''10.0.0.7'') ?rs))"
    using three_requests_per_key [of Map.empty "js ''10.0.0.7''" 1000 ?rs] by blast
  then show ?thesis
    by (simp add: requests_of_def sample_key kb proxied_key_v6 ne sample_delivered)
qed

text \<open>
  C5 as stated fails: the quota is not kept per resolved client identity. Two clients
  behind the proxy at 203.0.113.9 whose forwarded addresses, and so their identities
  by \<^verbatim>\<open>getClientIp\<close>, are 2001:db8::1 and 2001:db8::2 get the same limiter key from
  \<^verbatim>\<open>keyGenerator\<close>, which takes the forwarded address only when it is made of digits
  and dots; after three requests of the first, the first request of the second is
  denied with 429.
\<close>

theorem three_requests_counterexample:
  "getClientIp (proxied_request (js ''2001:db8::2, 203.0.113.9''))
     \<noteq> getClientIp (proxied_request (js ''2001:db8::1, 203.0.113.9''))
   \<and> map (\<lambda>out. status (fst out))
       (serve Map.empty
          [(1000, sample_env (\<lambda>out. Resolved 200 None),
              proxied_request (js ''2001:db8::1, 203.0.113.9'')),
           (2000, sample_env (\<lambda>out. Resolved 200 None),
              proxied_request (js ''2001:db8::1, 203.0.113.9'')),
           (3000, sample_env (\<lambda>out. Resolved 200 None),
              proxied_request (js ''2001:db8::1, 203.0.113.9'')),
           (4000, sample_env (\<lambda>out. Resolved 200 None),
              proxied_request (js ''2001:db8::2, 203.0.113.9''))])
     = [200, 200, 200, 429]"
proof -
  have "getClientIp (proxied_request (js ''2001:db8::2, 203.0.113.9''))
     \<noteq> getClientIp (proxied_request (js ''2001:db8::1, 203.0.113.9''))"
    unfolding proxied_identity_v6 by (simp add: js_def)
  moreover have "map (\<lambda>out. status (fst out))
       (serve Map.empty
          [(1000, sample_env (\<lambda>out. Resolved 200 None),
              proxied_request (js ''2001:db8::1, 203.0.113.9'')),
           (2000, sample_env (\<lambda>out. Resolved 200 None),
              proxied_request (js ''2001:db8::1, 203.0.113.9'')),
           (3000, sample_env (\<lambda>out. Resolved 200 None),
              proxied_request (js ''2001:db8::1, 203.0.113.9'')),
           (4000, sample_env (\<lambda>out. Resolved 200 None),
              proxied_request (js ''2001:db8::2, 203.0.113.9''))])
     = [200, 200, 200, 429]"
    by (simp add: serve_def route_with_def check_def Let_def windowMs_def max_hits_def
          proxied_key_v6 proxied_delivered too_many_requests_def)
  ultimately show ?thesis by simp
qed

end
